theory Spec2Isabelle
  imports Complex_Main "HOL-Library.Sublist"
begin

section \<open>Data model\<close>

text \<open>
  The run configuration (\<^verbatim>\<open>Config\<close>). Only the fields that \<^verbatim>\<open>get_model\<close>,
  \<^verbatim>\<open>GRU.__init__\<close> and the sample configuration file mention are listed; the record
  is extensible, so every statement below also holds for configurations with more fields.
\<close>

record config =
  model :: string
  hidden_size :: nat
  output_dropout :: real
  use_frequencies :: "string list"
  target_variables :: "string list"
  dynamic_inputs :: "string list"
  static_attributes :: "string list"

text \<open>The model classes that \<^verbatim>\<open>get_model\<close> instantiates.\<close>

datatype model_class = CudaLSTM | EALSTM | CustomLSTM | GRU | EmbCudaLSTM | MTSLSTM | ODELSTM

text \<open>
  Exceptions are values. \<^verbatim>\<open>get_model\<close> itself raises \<^verbatim>\<open>ValueError\<close> and
  \<^verbatim>\<open>NotImplementedError\<close>; the library components it calls may raise anything.
\<close>

datatype exn = ValueError string | NotImplementedError string | OtherError string

datatype warning_category = FutureWarning | DeprecationWarning | UserWarning

text \<open>
  An input batch maps names to tensors; the entry \<^verbatim>\<open>'x_d'\<close> is itself a dictionary from
  feature names to tensors. Tensors belong to the numerical library and stay abstract
  (type \<open>'t\<close>), as do the module objects the library and the model zoo build (type \<open>'mod\<close>).
\<close>

datatype 't batch_entry = Tensor 't | Features "(string \<times> 't) list"

type_synonym 't batch = "string \<rightharpoonup> 't batch_entry"

text \<open>
  The observable effects of a run: warnings, constructor calls and calls of sub-modules,
  each with the arguments the source passes.
\<close>

datatype ('mod, 't) event =
    Warning string warning_category
  | New_model model_class config
  | New_BaseModel config
  | New_InputLayer config
  | New_nn_GRU nat nat
  | New_nn_Dropout real
  | New_head config nat nat
  | Call_embedding_net 'mod "'t batch" bool
  | Call_gru 'mod 't
  | Call_dropout 'mod 't
  | Call_head 'mod 't

text \<open>
  The world holds the one configuration object of the run, which every component receives
  by reference, and the trace of effects so far.
\<close>

record ('mod, 't) world =
  cfg_obj :: config
  trace :: "('mod, 't) event list"

text \<open>
  Modelled from the spec: the constant \<^verbatim>\<open>SINGLE_FREQ_MODELS\<close>, the constructors of the
  model classes other than GRU, the input layer, \<^verbatim>\<open>get_head\<close> and the numerical library
  are not part of the sources, so each is a parameter. The spec makes the configuration an
  immutable record that every component receives by reference: a component reads the
  configuration it is given and returns an object or raises, and has no way to change it.
  Each constructor and each operation is called at most once in a run of \<^verbatim>\<open>get_model\<close> or
  \<^verbatim>\<open>forward\<close>, so a function from arguments to outcome covers random initialisation and
  dropout as well.
\<close>

record ('mod, 't) env =
  SINGLE_FREQ_MODELS :: "string list"
  ext_model :: "model_class \<Rightarrow> config \<Rightarrow> exn + 'mod"
  ext_InputLayer :: "config \<Rightarrow> exn + 'mod"
  output_size_of :: "'mod \<Rightarrow> nat"
  ext_nn_GRU :: "nat \<Rightarrow> nat \<Rightarrow> exn + 'mod"
  ext_nn_Dropout :: "real \<Rightarrow> exn + 'mod"
  ext_get_head :: "config \<Rightarrow> nat \<Rightarrow> nat \<Rightarrow> exn + 'mod"
  run_embedding_net :: "'mod \<Rightarrow> 't batch \<Rightarrow> bool \<Rightarrow> exn + 't"
  run_gru :: "'mod \<Rightarrow> 't \<Rightarrow> exn + 't \<times> 't"
  run_dropout :: "'mod \<Rightarrow> 't \<Rightarrow> exn + 't"
  run_head :: "'mod \<Rightarrow> 't \<Rightarrow> exn + (string \<rightharpoonup> 't)"
  tensor_transpose :: "'t \<Rightarrow> nat \<Rightarrow> nat \<Rightarrow> exn + 't"
  tensor_shape :: "'t \<Rightarrow> nat list"

text \<open>The attributes of a GRU instance, and what \<^verbatim>\<open>get_model\<close> returns.\<close>

record BaseModel =
  output_size :: nat

record 'mod GRU_obj = BaseModel +
  embedding_net :: 'mod
  gru :: 'mod
  dropout :: 'mod
  head :: 'mod

datatype 'mod model_instance = External_model model_class 'mod | GRU_model "'mod GRU_obj"

fun class_of :: "'mod model_instance \<Rightarrow> model_class" where
  "class_of (External_model c m) = c"
| "class_of (GRU_model g) = GRU"

section \<open>Programs: state passing with exceptions\<close>

type_synonym ('a, 'w) prog = "'w \<Rightarrow> (exn + 'a) \<times> 'w"

definition ret :: "'a \<Rightarrow> ('a, 'w) prog" where
  "ret x w = (Inr x, w)"

definition throw :: "exn \<Rightarrow> ('a, 'w) prog" where
  "throw e w = (Inl e, w)"

definition pbind :: "('a, 'w) prog \<Rightarrow> ('a \<Rightarrow> ('b, 'w) prog) \<Rightarrow> ('b, 'w) prog" where
  "pbind m f w = (case m w of (Inl e, w') \<Rightarrow> (Inl e, w') | (Inr x, w') \<Rightarrow> f x w')"

definition read_cfg :: "(config, ('mod, 't) world) prog" where
  "read_cfg w = (Inr (cfg_obj w), w)"

definition emit :: "('mod, 't) event \<Rightarrow> (unit, ('mod, 't) world) prog" where
  "emit ev w = (Inr (), w\<lparr>trace := trace w @ [ev]\<rparr>)"

definition outcome :: "exn + 'a \<Rightarrow> ('a, 'w) prog" where
  "outcome r w = (r, w)"

text \<open>A call of an external component: the call is recorded, then it returns or raises.\<close>

definition external :: "('mod, 't) event \<Rightarrow> exn + 'a \<Rightarrow> ('a, ('mod, 't) world) prog" where
  "external ev r = pbind (emit ev) (\<lambda>_. outcome r)"

text \<open>\<^verbatim>\<open>warnings.warn\<close> under the default filter: the warning is recorded and execution goes on.\<close>

definition warn :: "string \<Rightarrow> warning_category \<Rightarrow> (unit, ('mod, 't) world) prog" where
  "warn msg cat = emit (Warning msg cat)"

section \<open>The GRU model\<close>

text \<open>\<^verbatim>\<open>module_parts = ['embedding_net', 'gru', 'head']\<close>\<close>

definition module_parts :: "string list" where
  "module_parts = [''embedding_net'', ''gru'', ''head'']"

text \<open>
  Modelled from the spec: \<^verbatim>\<open>BaseModel.__init__\<close> is not part of the sources. The spec sizes
  the output head by the number of target variables, and \<^verbatim>\<open>GRU.__init__\<close> passes
  \<^verbatim>\<open>self.output_size\<close> there, so the base constructor sets \<^verbatim>\<open>output_size\<close> to the number
  of target variables of the configuration.
\<close>

definition BaseModel_init :: "config \<Rightarrow> exn + BaseModel" where
  "BaseModel_init cfg = Inr \<lparr>output_size = length (target_variables cfg)\<rparr>"

text \<open>
  \<^verbatim>\<open>GRU.__init__(self, cfg)\<close>: the base constructor, the input layer, the recurrent core
  sized by the input layer's output size and \<^verbatim>\<open>cfg.hidden_size\<close>, the dropout layer, the head.
\<close>

definition GRU_init :: "('mod, 't) env \<Rightarrow> ('mod GRU_obj, ('mod, 't) world) prog" where
  "GRU_init E =
     pbind read_cfg (\<lambda>cfg.
     pbind (external (New_BaseModel cfg) (BaseModel_init cfg)) (\<lambda>self.
     pbind (external (New_InputLayer cfg) (ext_InputLayer E cfg)) (\<lambda>emb.
     pbind read_cfg (\<lambda>cfg.
     pbind (external (New_nn_GRU (output_size_of E emb) (hidden_size cfg))
                     (ext_nn_GRU E (output_size_of E emb) (hidden_size cfg))) (\<lambda>g.
     pbind read_cfg (\<lambda>cfg.
     pbind (external (New_nn_Dropout (output_dropout cfg))
                     (ext_nn_Dropout E (output_dropout cfg))) (\<lambda>dp.
     pbind read_cfg (\<lambda>cfg.
     pbind (external (New_head cfg (hidden_size cfg) (output_size self))
                     (ext_get_head E cfg (hidden_size cfg) (output_size self))) (\<lambda>hm.
     ret (BaseModel.extend self
            \<lparr>embedding_net = emb, gru = g, dropout = dp, head = hm\<rparr>))))))))))"

text \<open>
  \<^verbatim>\<open>GRU.forward(self, data)\<close>. The dictionary \<^verbatim>\<open>pred\<close> starts as \<^verbatim>\<open>{'h_n': h_n}\<close>;
  \<^verbatim>\<open>pred.update(d)\<close> is \<open>pred ++ d\<close>, where the entries of \<open>d\<close> win.
\<close>

definition forward ::
  "('mod, 't) env \<Rightarrow> 'mod GRU_obj \<Rightarrow> 't batch \<Rightarrow> (string \<rightharpoonup> 't, ('mod, 't) world) prog" where
  "forward E self data =
     pbind (external (Call_embedding_net (embedding_net self) data True)
                     (run_embedding_net E (embedding_net self) data True)) (\<lambda>x_d.
     pbind (external (Call_gru (gru self) x_d) (run_gru E (gru self) x_d)) (\<lambda>(gru_output, h_n).
     pbind (outcome (tensor_transpose E h_n 0 1)) (\<lambda>h_n.
     pbind (ret [''h_n'' \<mapsto> h_n]) (\<lambda>pred.
     pbind (outcome (tensor_transpose E gru_output 0 1)) (\<lambda>y.
     pbind (external (Call_dropout (dropout self) y) (run_dropout E (dropout self) y)) (\<lambda>y.
     pbind (external (Call_head (head self) y) (run_head E (head self) y)) (\<lambda>out.
     ret (pred ++ out))))))))"

section \<open>The model factory\<close>

text \<open>Calling a model class with the configuration returns an instance of that class.\<close>

definition new_external ::
  "('mod, 't) env \<Rightarrow> model_class \<Rightarrow> ('mod model_instance, ('mod, 't) world) prog" where
  "new_external E c =
     pbind read_cfg (\<lambda>cfg.
     pbind (external (New_model c cfg) (ext_model E c cfg)) (\<lambda>m.
     ret (External_model c m)))"

definition new_GRU :: "('mod, 't) env \<Rightarrow> ('mod model_instance, ('mod, 't) world) prog" where
  "new_GRU E =
     pbind read_cfg (\<lambda>cfg.
     pbind (emit (New_model GRU cfg)) (\<lambda>_.
     pbind (GRU_init E) (\<lambda>self.
     ret (GRU_model self))))"

text \<open>The text of the warning for the old name of \<^verbatim>\<open>CustomLSTM\<close>.\<close>

definition LSTM_renamed :: string where
  "LSTM_renamed =
     ''The `LSTM` class has been renamed to `CustomLSTM`. '' @
     ''Support for `LSTM` will we dropped in the future.''"

text \<open>\<^verbatim>\<open>get_model(cfg)\<close>, branch by branch in the order of the source.\<close>

definition get_model :: "('mod, 't) env \<Rightarrow> ('mod model_instance, ('mod, 't) world) prog" where
  "get_model E =
     pbind read_cfg (\<lambda>cfg.
       if model cfg \<in> set (SINGLE_FREQ_MODELS E) \<and> length (use_frequencies cfg) > 1 then
         throw (ValueError (''Model '' @ model cfg @ '' does not support multiple frequencies.''))
       else if model cfg = ''cudalstm'' then new_external E CudaLSTM
       else if model cfg = ''ealstm'' then new_external E EALSTM
       else if model cfg = ''customlstm'' then new_external E CustomLSTM
       else if model cfg = ''lstm'' then
         pbind (warn LSTM_renamed FutureWarning) (\<lambda>_. new_external E CustomLSTM)
       else if model cfg = ''gru'' then new_GRU E
       else if model cfg = ''embcudalstm'' then new_external E EmbCudaLSTM
       else if model cfg = ''mtslstm'' then new_external E MTSLSTM
       else if model cfg = ''odelstm'' then new_external E ODELSTM
       else
         throw (NotImplementedError
                  (model cfg @ '' not implemented or not linked in `get_model()`'')))"

section \<open>Notions of the specification\<close>

text \<open>The supported identifiers and the class each one is matched to.\<close>

definition class_table :: "(string \<times> model_class) list" where
  "class_table =
     [(''cudalstm'', CudaLSTM), (''ealstm'', EALSTM), (''customlstm'', CustomLSTM),
      (''lstm'', CustomLSTM), (''gru'', GRU), (''embcudalstm'', EmbCudaLSTM),
      (''mtslstm'', MTSLSTM), (''odelstm'', ODELSTM)]"

definition supported_models :: "string list" where
  "supported_models = map fst class_table"

definition class_for :: "string \<Rightarrow> model_class option" where
  "class_for name = map_of class_table name"

text \<open>Constructing an instance of a class, as the factory does it.\<close>

definition instantiate ::
  "('mod, 't) env \<Rightarrow> model_class \<Rightarrow> ('mod model_instance, ('mod, 't) world) prog" where
  "instantiate E c = (if c = GRU then new_GRU E else new_external E c)"

text \<open>A program that leaves the configuration object as it found it.\<close>

definition keeps_cfg :: "('a, ('mod, 't) world) prog \<Rightarrow> bool" where
  "keeps_cfg p = (\<forall>w. cfg_obj (snd (p w)) = cfg_obj w)"

text \<open>The events a program run added to the trace.\<close>

definition new_events :: "('mod, 't) world \<Rightarrow> ('mod, 't) world \<Rightarrow> ('mod, 't) event list" where
  "new_events w w' = drop (length (trace w)) (trace w')"



fun is_constructor_call :: "('mod, 't) event \<Rightarrow> bool" where
  "is_constructor_call (Warning msg cat) = False"
| "is_constructor_call (Call_embedding_net m d c) = False"
| "is_constructor_call (Call_gru m x) = False"
| "is_constructor_call (Call_dropout m x) = False"
| "is_constructor_call (Call_head m x) = False"
| "is_constructor_call ev = True"

text \<open>
  The batch layout of the notebook: \<^verbatim>\<open>'x_d'\<close> is a non-empty dictionary of tensors of shape
  \<^verbatim>\<open>[batch size, sequence length, features]\<close>.
\<close>

fun has_batch_and_length :: "nat \<Rightarrow> nat \<Rightarrow> nat list \<Rightarrow> bool" where
  "has_batch_and_length B S [b, s, f] = (b = B \<and> s = S)"
| "has_batch_and_length B S shp = False"

definition batch_dims :: "('mod, 't) env \<Rightarrow> 't batch \<Rightarrow> nat \<Rightarrow> nat \<Rightarrow> bool" where
  "batch_dims E data B S =
     (case data ''x_d'' of
        Some (Features xd) \<Rightarrow>
          xd \<noteq> [] \<and> list_all (\<lambda>(k, t). has_batch_and_length B S (tensor_shape E t)) xd
      | _ \<Rightarrow> False)"

text \<open>
  Modelled from the spec: the input layer, the head and the numerical library are not part
  of the sources. The input layer turns a batch of sequence length \<open>S\<close> into one tensor with a
  row of \<open>F\<close> features per time step, time first, as the recurrent core expects it.
\<close>

definition embedding_contract :: "('mod, 't) env \<Rightarrow> 'mod \<Rightarrow> nat \<Rightarrow> bool" where
  "embedding_contract E m F =
     (\<forall>data B S. batch_dims E data B S \<longrightarrow>
        (\<exists>x. run_embedding_net E m data True = Inr x \<and> tensor_shape E x = [S, B, F]))"

text \<open>
  Modelled from the spec: the recurrent core runs over the sequence; it returns one hidden
  vector per time step and the final hidden state, of shape \<^verbatim>\<open>[1, batch size, hidden size]\<close>.
\<close>

definition core_contract :: "('mod, 't) env \<Rightarrow> 'mod \<Rightarrow> nat \<Rightarrow> nat \<Rightarrow> bool" where
  "core_contract E m F H =
     (\<forall>x S B. tensor_shape E x = [S, B, F] \<longrightarrow>
        (\<exists>out h. run_gru E m x = Inr (out, h) \<and>
                  tensor_shape E out = [S, B, H] \<and> tensor_shape E h = [1, B, H]))"

text \<open>Modelled from the spec: \<^verbatim>\<open>transpose(0, 1)\<close> swaps the first two dimensions.\<close>

definition transpose_contract :: "('mod, 't) env \<Rightarrow> bool" where
  "transpose_contract E =
     (\<forall>x d0 d1 ds. tensor_shape E x = d0 # d1 # ds \<longrightarrow>
        (\<exists>y. tensor_transpose E x 0 1 = Inr y \<and> tensor_shape E y = d1 # d0 # ds))"

text \<open>Modelled from the spec: dropout keeps the shape of its input.\<close>

definition dropout_contract :: "('mod, 't) env \<Rightarrow> 'mod \<Rightarrow> bool" where
  "dropout_contract E m =
     (\<forall>x. \<exists>y. run_dropout E m x = Inr y \<and> tensor_shape E y = tensor_shape E x)"

text \<open>
  Modelled from the spec: the head maps the hidden representation of every position to the
  predicted target and returns it under \<^verbatim>\<open>'y_hat'\<close>, possibly with further entries.
\<close>

definition head_contract :: "('mod, 't) env \<Rightarrow> 'mod \<Rightarrow> nat \<Rightarrow> nat \<Rightarrow> bool" where
  "head_contract E m H n_out =
     (\<forall>x B S. tensor_shape E x = [B, S, H] \<longrightarrow>
        (\<exists>out y. run_head E m x = Inr out \<and> out ''y_hat'' = Some y \<and>
                  tensor_shape E y = [B, S, n_out]))"

section \<open>Sample inputs\<close>

text \<open>The sample configuration file of the repository (the fields of the record).\<close>

definition sample_config :: config where
  "sample_config =
     \<lparr>model = ''mtslstm'', hidden_size = 16, output_dropout = 0.4,
      use_frequencies = [''1D'', ''1h''],
      target_variables = [''qobs_mm_per_hour''],
      dynamic_inputs = [''total_precipitation'', ''temperature''],
      static_attributes = [''elev_mean'', ''slope_mean'']\<rparr>"

definition start :: "config \<Rightarrow> ('mod, 't) world" where
  "start cfg = \<lparr>cfg_obj = cfg, trace = []\<rparr>"

text \<open>
  A sample environment: module objects are descriptions of what was built, and tensors are
  their shapes. \<^verbatim>\<open>SINGLE_FREQ_MODELS\<close> gets a sample value that contains \<^verbatim>\<open>gru\<close>, the
  model the notebook presents as a single-timescale model.
\<close>

datatype sample_module =
    Sample_model model_class
  | Sample_InputLayer nat
  | Sample_nn_GRU nat nat
  | Sample_nn_Dropout real
  | Sample_head nat nat

fun sample_output_size :: "sample_module \<Rightarrow> nat" where
  "sample_output_size (Sample_InputLayer n) = n"
| "sample_output_size m = 0"

fun first_shape :: "nat list batch_entry option \<Rightarrow> nat list option" where
  "first_shape (Some (Features ((k, shp) # xd))) = Some shp"
| "first_shape e = None"

fun sample_embedding :: "sample_module \<Rightarrow> nat list batch \<Rightarrow> bool \<Rightarrow> exn + nat list" where
  "sample_embedding (Sample_InputLayer n) data conc =
     (case first_shape (data ''x_d'') of
        Some [b, s, f] \<Rightarrow> Inr [s, b, n]
      | _ \<Rightarrow> Inl (OtherError ''no dynamic inputs''))"
| "sample_embedding m data conc = Inl (OtherError ''not an input layer'')"

fun sample_gru :: "sample_module \<Rightarrow> nat list \<Rightarrow> exn + nat list \<times> nat list" where
  "sample_gru (Sample_nn_GRU i h) [s, b, f] =
     (if f = i then Inr ([s, b, h], [1, b, h]) else Inl (OtherError ''input size mismatch''))"
| "sample_gru m x = Inl (OtherError ''expected a 3-D input'')"

fun sample_head_run :: "sample_module \<Rightarrow> nat list \<Rightarrow> exn + (string \<rightharpoonup> nat list)" where
  "sample_head_run (Sample_head i n_out) [b, s, h] =
     (if h = i then Inr [''y_hat'' \<mapsto> [b, s, n_out]] else Inl (OtherError ''size mismatch''))"
| "sample_head_run m x = Inl (OtherError ''expected a 3-D input'')"

fun sample_transpose :: "nat list \<Rightarrow> nat \<Rightarrow> nat \<Rightarrow> exn + nat list" where
  "sample_transpose (a # b # r) d0 d1 =
     (if d0 = 0 \<and> d1 = 1 then Inr (b # a # r) else Inl (OtherError ''not modelled''))"
| "sample_transpose x d0 d1 = Inl (OtherError ''Dimension out of range'')"

definition sample_env :: "(sample_module, nat list) env" where
  "sample_env =
     \<lparr>SINGLE_FREQ_MODELS = [''cudalstm'', ''ealstm'', ''customlstm'', ''embcudalstm'', ''gru''],
      ext_model = (\<lambda>c cfg. Inr (Sample_model c)),
      ext_InputLayer = (\<lambda>cfg. Inr (Sample_InputLayer
                         (length (dynamic_inputs cfg) + length (static_attributes cfg)))),
      output_size_of = sample_output_size,
      ext_nn_GRU = (\<lambda>i h. Inr (Sample_nn_GRU i h)),
      ext_nn_Dropout = (\<lambda>p. if 0 \<le> p \<and> p \<le> 1 then Inr (Sample_nn_Dropout p)
                         else Inl (ValueError ''dropout probability has to be between 0 and 1'')),
      ext_get_head = (\<lambda>cfg i n_out. Inr (Sample_head i n_out)),
      run_embedding_net = sample_embedding,
      run_gru = sample_gru,
      run_dropout = (\<lambda>m x. Inr x),
      run_head = sample_head_run,
      tensor_transpose = sample_transpose,
      tensor_shape = (\<lambda>x. x)\<rparr>"

text \<open>A GRU instance as the sample environment builds it, and a batch of 256 sequences
  of 30 steps with the two dynamic inputs of the sample configuration.\<close>

definition sample_gru_obj :: "sample_module GRU_obj" where
  "sample_gru_obj =
     \<lparr>output_size = 1, embedding_net = Sample_InputLayer 4, gru = Sample_nn_GRU 4 16,
      dropout = Sample_nn_Dropout 0.4, head = Sample_head 16 1\<rparr>"

definition sample_batch :: "nat list batch" where
  "sample_batch =
     [''x_d'' \<mapsto> Features [(''total_precipitation'', [256, 30, 1]),
                              (''temperature'', [256, 30, 1])],
      ''x_s'' \<mapsto> Tensor [256, 2]]"



section \<open>Running programs\<close>

lemma pbind_ret: "pbind (ret x) f w = f x w"
  by (simp add: pbind_def ret_def)

lemma pbind_throw: "pbind (throw e) f w = (Inl e, w)"
  by (simp add: pbind_def throw_def)

lemma pbind_read_cfg: "pbind read_cfg f w = f (cfg_obj w) w"
  by (simp add: pbind_def read_cfg_def)

lemma pbind_emit: "pbind (emit ev) f w = f () (w\<lparr>trace := trace w @ [ev]\<rparr>)"
  by (simp add: pbind_def emit_def)

lemma pbind_outcome:
  "pbind (outcome r) f w = (case r of Inl e \<Rightarrow> (Inl e, w) | Inr x \<Rightarrow> f x w)"
  by (simp add: pbind_def outcome_def split: sum.splits)

lemma pbind_external:
  "pbind (external ev r) f w =
     (case r of Inl e \<Rightarrow> (Inl e, w\<lparr>trace := trace w @ [ev]\<rparr>)
              | Inr x \<Rightarrow> f x (w\<lparr>trace := trace w @ [ev]\<rparr>))"
  by (simp add: pbind_def external_def emit_def outcome_def split: sum.splits)

lemma pbind_warn: "pbind (warn msg cat) f w = f () (w\<lparr>trace := trace w @ [Warning msg cat]\<rparr>)"
  by (simp add: warn_def pbind_emit)

lemmas pbind_simps =
  pbind_ret pbind_throw pbind_read_cfg pbind_emit pbind_outcome pbind_external pbind_warn

subsection \<open>Programs that leave the configuration alone\<close>

lemma keeps_cfg_ret: "keeps_cfg (ret x)"
  by (simp add: keeps_cfg_def ret_def)

lemma keeps_cfg_throw: "keeps_cfg (throw e)"
  by (simp add: keeps_cfg_def throw_def)

lemma keeps_cfg_read_cfg: "keeps_cfg read_cfg"
  by (simp add: keeps_cfg_def read_cfg_def)

lemma keeps_cfg_emit: "keeps_cfg (emit ev)"
  by (simp add: keeps_cfg_def emit_def)

lemma keeps_cfg_outcome: "keeps_cfg (outcome r)"
  by (simp add: keeps_cfg_def outcome_def)

lemma keeps_cfg_pbind:
  assumes "keeps_cfg m" and "\<And>x. keeps_cfg (f x)"
  shows "keeps_cfg (pbind m f)"
  unfolding keeps_cfg_def
proof
  fix w
  show "cfg_obj (snd (pbind m f w)) = cfg_obj w"
  proof (cases "m w")
    case (Pair r w1)
    from assms(1) have w1: "cfg_obj w1 = cfg_obj w"
      using Pair by (auto simp: keeps_cfg_def dest: spec [of _ w])
    show ?thesis
    proof (cases r)
      case (Inl e)
      with Pair w1 show ?thesis by (simp add: pbind_def)
    next
      case (Inr x)
      from assms(2) [of x] have "cfg_obj (snd (f x w1)) = cfg_obj w1"
        by (simp add: keeps_cfg_def)
      with Pair Inr w1 show ?thesis by (simp add: pbind_def)
    qed
  qed
qed

lemma keeps_cfg_external: "keeps_cfg (external ev r)"
  unfolding external_def by (intro keeps_cfg_pbind keeps_cfg_emit keeps_cfg_outcome)

lemma keeps_cfg_warn: "keeps_cfg (warn msg cat)"
  unfolding warn_def by (rule keeps_cfg_emit)

lemmas keeps_cfg_intros =
  keeps_cfg_pbind keeps_cfg_ret keeps_cfg_throw keeps_cfg_read_cfg keeps_cfg_emit
  keeps_cfg_outcome keeps_cfg_external keeps_cfg_warn

lemma keeps_cfg_GRU_init: "keeps_cfg (GRU_init E)"
  unfolding GRU_init_def by (intro keeps_cfg_intros)

lemma keeps_cfg_new_GRU: "keeps_cfg (new_GRU E)"
  unfolding new_GRU_def by (intro keeps_cfg_intros keeps_cfg_GRU_init)

lemma keeps_cfg_new_external: "keeps_cfg (new_external E c)"
  unfolding new_external_def by (intro keeps_cfg_intros)

lemma keeps_cfg_if: "keeps_cfg p \<Longrightarrow> keeps_cfg q \<Longrightarrow> keeps_cfg (if b then p else q)"
  by simp

lemma keeps_cfg_get_model: "keeps_cfg (get_model E)"
  unfolding get_model_def
  by (intro keeps_cfg_intros keeps_cfg_if keeps_cfg_new_GRU keeps_cfg_new_external)

lemma keeps_cfg_forward: "keeps_cfg (forward E self data)"
  unfolding forward_def
  by (intro keeps_cfg_intros keeps_cfg_if) (auto intro!: keeps_cfg_intros)

section \<open>The factory, branch by branch\<close>

lemma supported_models_iff:
  "name \<in> set supported_models \<longleftrightarrow>
     name = ''cudalstm'' \<or> name = ''ealstm'' \<or> name = ''customlstm'' \<or> name = ''lstm'' \<or>
     name = ''gru'' \<or> name = ''embcudalstm'' \<or> name = ''mtslstm'' \<or> name = ''odelstm''"
  by (simp add: supported_models_def class_table_def)

lemma class_for_supported: "(\<exists>c. class_for name = Some c) \<longleftrightarrow> name \<in> set supported_models"
  by (metis class_for_def supported_models_def map_of_eq_None_iff not_None_eq set_map)

lemma get_model_rejected:
  assumes "model (cfg_obj w) \<in> set (SINGLE_FREQ_MODELS E)"
    and "1 < length (use_frequencies (cfg_obj w))"
  shows "get_model E w =
     (Inl (ValueError (''Model '' @ model (cfg_obj w) @
                       '' does not support multiple frequencies.'')), w)"
  using assms by (simp add: get_model_def pbind_read_cfg throw_def)

lemma get_model_not_linked:
  assumes "\<not> (model (cfg_obj w) \<in> set (SINGLE_FREQ_MODELS E) \<and>
              1 < length (use_frequencies (cfg_obj w)))"
    and "model (cfg_obj w) \<notin> set supported_models"
  shows "get_model E w =
     (Inl (NotImplementedError
             (model (cfg_obj w) @ '' not implemented or not linked in `get_model()`'')), w)"
  using assms by (simp add: get_model_def pbind_read_cfg throw_def supported_models_iff)

lemma get_model_dispatch:
  assumes "\<not> (model (cfg_obj w) \<in> set (SINGLE_FREQ_MODELS E) \<and>
              1 < length (use_frequencies (cfg_obj w)))"
    and "class_for (model (cfg_obj w)) = Some c"
  shows "get_model E w =
     instantiate E c
       (if model (cfg_obj w) = ''lstm''
        then w\<lparr>trace := trace w @ [Warning LSTM_renamed FutureWarning]\<rparr> else w)"
  using assms(2) assms(1)
  by (auto simp add: class_for_def class_table_def get_model_def pbind_read_cfg pbind_warn
      instantiate_def split: if_splits)

lemma GRU_init_result_trace:
  "fst (GRU_init E (w\<lparr>trace := t\<rparr>)) = fst (GRU_init E w)"
  by (simp add: GRU_init_def pbind_simps BaseModel_init_def ret_def split: sum.splits)

lemma fst_pbind_ret: "fst (pbind m (\<lambda>x. ret (g x)) w) = map_sum id g (fst (m w))"
  by (simp add: pbind_def ret_def split: prod.splits sum.splits)

lemma fst_new_GRU: "fst (new_GRU E w) = map_sum id GRU_model (fst (GRU_init E w))"
proof -
  have "new_GRU E w =
        pbind (GRU_init E) (\<lambda>self. ret (GRU_model self))
          (w\<lparr>trace := trace w @ [New_model GRU (cfg_obj w)]\<rparr>)"
    by (simp add: new_GRU_def pbind_read_cfg pbind_emit)
  then show ?thesis
    by (simp add: fst_pbind_ret GRU_init_result_trace)
qed

lemma fst_new_external:
  "fst (new_external E c w) = map_sum id (External_model c) (ext_model E c (cfg_obj w))"
  by (simp add: new_external_def pbind_simps ret_def split: sum.splits)

lemma fst_instantiate:
  "fst (instantiate E c w) =
     (if c = GRU then map_sum id GRU_model (fst (GRU_init E w))
      else map_sum id (External_model c) (ext_model E c (cfg_obj w)))"
  by (simp add: instantiate_def fst_new_GRU fst_new_external)

lemma instantiate_result_trace:
  "fst (instantiate E c (w\<lparr>trace := t\<rparr>)) = fst (instantiate E c w)"
  by (simp add: fst_instantiate GRU_init_result_trace)

lemma instantiate_class:
  assumes "fst (instantiate E c w) = Inr m"
  shows "class_of m = c"
  using assms by (auto simp add: fst_instantiate map_sum_def split: if_splits sum.splits)

section \<open>The forward pass, step by step\<close>



lemma forward_run:
  assumes "run_embedding_net E (embedding_net self) data True = Inr x_d"
    and "run_gru E (gru self) x_d = Inr (gru_output, h_n)"
    and "tensor_transpose E h_n 0 1 = Inr h_t"
    and "tensor_transpose E gru_output 0 1 = Inr y"
    and "run_dropout E (dropout self) y = Inr y'"
    and "run_head E (head self) y' = Inr out"
  shows "forward E self data w =
           (Inr ([''h_n'' \<mapsto> h_t] ++ out),
            w\<lparr>trace := trace w @
                  [Call_embedding_net (embedding_net self) data True, Call_gru (gru self) x_d,
                   Call_dropout (dropout self) y, Call_head (head self) y']\<rparr>)"
  using assms by (simp add: forward_def pbind_simps ret_def)

section \<open>The sample inputs at work\<close>

lemmas sample_defs = sample_env_def sample_config_def start_def sample_gru_obj_def sample_batch_def



lemma sample_embedding_contract:
  "embedding_contract sample_env (Sample_InputLayer n) n"
  unfolding embedding_contract_def
proof (intro allI impI)
  fix data :: "nat list batch" and B S
  assume bd: "batch_dims sample_env data B S"
  then obtain xd where xd: "data ''x_d'' = Some (Features xd)" "xd \<noteq> []"
    "list_all (\<lambda>(k, t). has_batch_and_length B S t) xd"
    by (auto simp add: batch_dims_def sample_env_def split: option.splits batch_entry.splits)
  from xd(2) obtain k t rest where cons: "xd = (k, t) # rest"
    by (cases xd) auto
  with xd(3) have "has_batch_and_length B S t" by simp
  then obtain f where t: "t = [B, S, f]"
    by (auto elim: has_batch_and_length.elims)
  show "\<exists>x. run_embedding_net sample_env (Sample_InputLayer n) data True = Inr x \<and>
            tensor_shape sample_env x = [S, B, n]"
    using xd(1) cons t by (simp add: sample_env_def)
qed

lemma sample_core_contract: "core_contract sample_env (Sample_nn_GRU i h) i h"
  by (simp add: core_contract_def sample_env_def)

lemma sample_transpose_contract: "transpose_contract sample_env"
  by (simp add: transpose_contract_def sample_env_def)

lemma sample_dropout_contract: "dropout_contract sample_env m"
  by (simp add: dropout_contract_def sample_env_def)

lemma sample_head_contract: "head_contract sample_env (Sample_head i n_out) i n_out"
  by (simp add: head_contract_def sample_env_def)

lemma sample_batch_dims: "batch_dims sample_env sample_batch 256 30"
  by (simp add: batch_dims_def sample_env_def sample_batch_def)

section \<open>The claims\<close>

text \<open>
  Claim C1, as the code has it. For a configuration whose model field is a supported
  identifier, and for which the frequency check at the top of \<^verbatim>\<open>get_model\<close> does not fire
  (the identifier is not in \<^verbatim>\<open>SINGLE_FREQ_MODELS\<close>, or at most one frequency is declared),
  the factory's result is the result of constructing the class matched to the identifier:
  every instance it returns is of that class, and when the constructor of that class returns
  an object the factory returns this instance.
\<close>

theorem get_model_supported:
  assumes "class_for (model (cfg_obj w)) = Some c"
    and "model (cfg_obj w) \<notin> set (SINGLE_FREQ_MODELS E) \<or>
         length (use_frequencies (cfg_obj w)) \<le> 1"
  shows "fst (get_model E w) = fst (instantiate E c w) \<and>
         (\<forall>m. fst (get_model E w) = Inr m \<longrightarrow> class_of m = c) \<and>
         (\<forall>x. c \<noteq> GRU \<and> ext_model E c (cfg_obj w) = Inr x \<longrightarrow>
                fst (get_model E w) = Inr (External_model c x)) \<and>
         (\<forall>self. c = GRU \<and> fst (GRU_init E w) = Inr self \<longrightarrow>
                fst (get_model E w) = Inr (GRU_model self))"
proof -
  from assms(2) have guard: "\<not> (model (cfg_obj w) \<in> set (SINGLE_FREQ_MODELS E) \<and>
      1 < length (use_frequencies (cfg_obj w)))" by auto
  let ?w0 = "if model (cfg_obj w) = ''lstm''
        then w\<lparr>trace := trace w @ [Warning LSTM_renamed FutureWarning]\<rparr> else w"
  have run: "get_model E w = instantiate E c ?w0"
    by (rule get_model_dispatch [OF guard assms(1)])
  have res: "fst (get_model E w) = fst (instantiate E c w)"
    unfolding run
    using instantiate_result_trace
            [where E = E and c = c and w = w
               and t = "trace w @ [Warning LSTM_renamed FutureWarning]"]
    by simp
  have cls: "class_of m = c" if "fst (get_model E w) = Inr m" for m
    using that unfolding res by (rule instantiate_class)
  have ext: "fst (get_model E w) = Inr (External_model c x)"
    if "c \<noteq> GRU" "ext_model E c (cfg_obj w) = Inr x" for x
    unfolding res using that by (simp add: fst_instantiate)
  have own: "fst (get_model E w) = Inr (GRU_model self)"
    if "c = GRU" "fst (GRU_init E w) = Inr self" for self
    unfolding res using that by (simp add: fst_instantiate)
  from res cls ext own show ?thesis by blast
qed

text \<open>
  Claim C1 as stated fails: \<^verbatim>\<open>gru\<close> is a supported identifier, yet for the sample
  configuration with the model set to \<^verbatim>\<open>gru\<close> and its two frequencies the factory raises
  \<^verbatim>\<open>ValueError\<close> and returns no instance, since \<^verbatim>\<open>gru\<close> is a single-frequency model.
\<close>

theorem get_model_supported_counterexample:
  "class_for (model (cfg_obj (start (sample_config\<lparr>model := ''gru''\<rparr>)))) = Some GRU \<and>
   get_model sample_env (start (sample_config\<lparr>model := ''gru''\<rparr>)) =
     (Inl (ValueError ''Model gru does not support multiple frequencies.''),
      start (sample_config\<lparr>model := ''gru''\<rparr>))"
  by (simp add: get_model_def pbind_read_cfg throw_def sample_defs class_for_def class_table_def)

text \<open>The sample configuration itself: \<^verbatim>\<open>mtslstm\<close> with two frequencies is built.\<close>

theorem get_model_supported_witness:
  "class_for (model (cfg_obj (start sample_config))) = Some MTSLSTM \<and>
   model (cfg_obj (start sample_config)) \<notin> set (SINGLE_FREQ_MODELS sample_env) \<and>
   fst (get_model sample_env (start sample_config)) =
     Inr (External_model MTSLSTM (Sample_model MTSLSTM))"
proof -
  have c: "class_for (model (cfg_obj (start sample_config))) = Some MTSLSTM"
    by (simp add: sample_defs class_for_def class_table_def)
  have n: "model (cfg_obj (start sample_config)) \<notin> set (SINGLE_FREQ_MODELS sample_env)"
    by (simp add: sample_defs)
  then have g: "model (cfg_obj (start sample_config)) \<notin> set (SINGLE_FREQ_MODELS sample_env) \<or>
    length (use_frequencies (cfg_obj (start sample_config))) \<le> 1"
    by (rule disjI1)
  have x: "MTSLSTM \<noteq> GRU \<and>
     ext_model sample_env MTSLSTM (cfg_obj (start sample_config)) = Inr (Sample_model MTSLSTM)"
    by (simp add: sample_defs)
  from get_model_supported [OF c g] x c n show ?thesis by blast
qed

text \<open>
  Claim C2. For every configuration whose model identifier is a member of
  \<^verbatim>\<open>SINGLE_FREQ_MODELS\<close> and whose \<^verbatim>\<open>use_frequencies\<close> list has more than one entry,
  \<^verbatim>\<open>get_model\<close> raises the \<^verbatim>\<open>ValueError\<close> "Model ... does not support multiple
  frequencies." and leaves the world as it was: no constructor has been called.
\<close>

theorem get_model_multi_frequency:
  assumes "model (cfg_obj w) \<in> set (SINGLE_FREQ_MODELS E)"
    and "1 < length (use_frequencies (cfg_obj w))"
  shows "get_model E w =
     (Inl (ValueError (''Model '' @ model (cfg_obj w) @
                       '' does not support multiple frequencies.'')), w)"
  using assms by (rule get_model_rejected)

text \<open>The statement above at the sample inputs.\<close>

theorem get_model_multi_frequency_witness:
  "model (cfg_obj (start (sample_config\<lparr>model := ''cudalstm''\<rparr>)))
     \<in> set (SINGLE_FREQ_MODELS sample_env) \<and>
   1 < length (use_frequencies (cfg_obj (start (sample_config\<lparr>model := ''cudalstm''\<rparr>)))) \<and>
   get_model sample_env (start (sample_config\<lparr>model := ''cudalstm''\<rparr>)) =
     (Inl (ValueError ''Model cudalstm does not support multiple frequencies.''),
      start (sample_config\<lparr>model := ''cudalstm''\<rparr>))"
proof -
  have a: "model (cfg_obj (start (sample_config\<lparr>model := ''cudalstm''\<rparr>)))
     \<in> set (SINGLE_FREQ_MODELS sample_env)"
    by (simp add: sample_defs)
  have b: "1 < length (use_frequencies (cfg_obj (start (sample_config\<lparr>model := ''cudalstm''\<rparr>))))"
    by (simp add: sample_defs)
  from get_model_multi_frequency [OF a b] a b show ?thesis
    by (simp add: sample_defs)
qed

text \<open>
  Claim C3. For every configuration whose model identifier is not a supported one,
  \<^verbatim>\<open>get_model\<close> raises the \<^verbatim>\<open>NotImplementedError\<close> "... not implemented or not linked
  in `get_model()`" and returns no instance. Here \<^verbatim>\<open>SINGLE_FREQ_MODELS\<close> lists supported
  identifiers only, so the frequency check cannot fire for an unsupported one.
\<close>

theorem get_model_unsupported:
  assumes "set (SINGLE_FREQ_MODELS E) \<subseteq> set supported_models"
    and "model (cfg_obj w) \<notin> set supported_models"
  shows "get_model E w =
     (Inl (NotImplementedError
             (model (cfg_obj w) @ '' not implemented or not linked in `get_model()`'')), w)"
proof -
  from assms have "model (cfg_obj w) \<notin> set (SINGLE_FREQ_MODELS E)" by blast
  then have "\<not> (model (cfg_obj w) \<in> set (SINGLE_FREQ_MODELS E) \<and>
              1 < length (use_frequencies (cfg_obj w)))" by simp
  then show ?thesis using assms(2) by (rule get_model_not_linked)
qed

text \<open>The statement above at the sample inputs.\<close>

theorem get_model_unsupported_witness:
  "set (SINGLE_FREQ_MODELS sample_env) \<subseteq> set supported_models \<and>
   model (cfg_obj (start (sample_config\<lparr>model := ''transformer''\<rparr>))) \<notin> set supported_models \<and>
   get_model sample_env (start (sample_config\<lparr>model := ''transformer''\<rparr>)) =
     (Inl (NotImplementedError ''transformer not implemented or not linked in `get_model()`''),
      start (sample_config\<lparr>model := ''transformer''\<rparr>))"
proof -
  have a: "set (SINGLE_FREQ_MODELS sample_env) \<subseteq> set supported_models"
    by (simp add: sample_defs supported_models_def class_table_def)
  have b: "model (cfg_obj (start (sample_config\<lparr>model := ''transformer''\<rparr>)))
             \<notin> set supported_models"
    by (simp add: sample_defs supported_models_def class_table_def)
  from get_model_unsupported [OF a b] a b show ?thesis
    by (simp add: sample_defs)
qed






text \<open>
  Claim C6. For a batch of \<open>B\<close> sequences of length \<open>S\<close>, with components that behave as
  the contracts above say, \<^verbatim>\<open>forward\<close> returns a mapping that contains \<^verbatim>\<open>'y_hat'\<close>, and
  the prediction stored there has shape \<open>[B, S, n_out]\<close>: one prediction for each of the
  \<open>S\<close> time steps of the input.
\<close>

theorem forward_y_hat_full_sequence:
  assumes batch: "batch_dims E data B S"
    and emb: "embedding_contract E (embedding_net self) F"
    and core: "core_contract E (gru self) F H"
    and tr: "transpose_contract E"
    and dp: "dropout_contract E (dropout self)"
    and hd: "head_contract E (head self) H n_out"
  shows "\<exists>pred y w'. forward E self data w = (Inr pred, w') \<and>
           pred ''y_hat'' = Some y \<and> tensor_shape E y = [B, S, n_out]"
proof -
  from emb batch obtain x_d where
    x_d: "run_embedding_net E (embedding_net self) data True = Inr x_d"
      "tensor_shape E x_d = [S, B, F]"
    unfolding embedding_contract_def by blast
  from core x_d(2) obtain gru_output h_n where
    g: "run_gru E (gru self) x_d = Inr (gru_output, h_n)"
      "tensor_shape E gru_output = [S, B, H]" "tensor_shape E h_n = [1, B, H]"
    unfolding core_contract_def by blast
  from tr g(3) obtain h_t where h_t: "tensor_transpose E h_n 0 1 = Inr h_t"
    unfolding transpose_contract_def by blast
  from tr g(2) obtain y1 where
    y1: "tensor_transpose E gru_output 0 1 = Inr y1" "tensor_shape E y1 = [B, S, H]"
    unfolding transpose_contract_def by blast
  from dp obtain y2 where
    y2: "run_dropout E (dropout self) y1 = Inr y2" "tensor_shape E y2 = tensor_shape E y1"
    unfolding dropout_contract_def by blast
  from hd y2(2) y1(2) obtain out y where
    out: "run_head E (head self) y2 = Inr out" "out ''y_hat'' = Some y"
      "tensor_shape E y = [B, S, n_out]"
    unfolding head_contract_def by (metis (no_types))
  have "fst (forward E self data w) = Inr ([''h_n'' \<mapsto> h_t] ++ out)"
    using forward_run [OF x_d(1) g(1) h_t y1(1) y2(1) out(1), of w] by simp
  moreover have "([''h_n'' \<mapsto> h_t] ++ out) ''y_hat'' = Some y"
    using out(2) by (simp add: map_add_def)
  ultimately show ?thesis using out(3)
    by (metis prod.collapse)
qed

text \<open>The statement above at the sample inputs.\<close>

theorem forward_y_hat_full_sequence_witness:
  "batch_dims sample_env sample_batch 256 30 \<and>
   embedding_contract sample_env (embedding_net sample_gru_obj) 4 \<and>
   core_contract sample_env (gru sample_gru_obj) 4 16 \<and>
   transpose_contract sample_env \<and>
   dropout_contract sample_env (dropout sample_gru_obj) \<and>
   head_contract sample_env (head sample_gru_obj) 16 1 \<and>
   (case fst (forward sample_env sample_gru_obj sample_batch (start sample_config)) of
      Inl e \<Rightarrow> False
    | Inr pred \<Rightarrow> pred ''y_hat'' = Some [256, 30, 1])"
proof -
  have e: "embedding_contract sample_env (embedding_net sample_gru_obj) 4"
    by (simp add: sample_gru_obj_def sample_embedding_contract)
  have c: "core_contract sample_env (gru sample_gru_obj) 4 16"
    by (simp add: sample_gru_obj_def sample_core_contract)
  have d: "dropout_contract sample_env (dropout sample_gru_obj)"
    by (rule sample_dropout_contract)
  have h: "head_contract sample_env (head sample_gru_obj) 16 1"
    by (simp add: sample_gru_obj_def sample_head_contract)
  from forward_y_hat_full_sequence
         [OF sample_batch_dims e c sample_transpose_contract d h, of "start sample_config"]
  have "case fst (forward sample_env sample_gru_obj sample_batch (start sample_config)) of
      Inl e \<Rightarrow> False
    | Inr pred \<Rightarrow> pred ''y_hat'' = Some [256, 30, 1]"
    by (auto simp add: sample_env_def)
  with sample_batch_dims e c sample_transpose_contract d h show ?thesis by blast
qed

text \<open>
  Claim C7. When its components can be built, \<^verbatim>\<open>GRU.__init__\<close> builds, after the base
  constructor and in this order, the input layer from the configuration, the recurrent core
  with the input layer's output size as input size and \<^verbatim>\<open>cfg.hidden_size\<close> as hidden size,
  the dropout layer, and the head with \<^verbatim>\<open>cfg.hidden_size\<close> inputs and as many outputs as
  there are target variables. The module parts are the three named \<^verbatim>\<open>embedding_net\<close>,
  \<^verbatim>\<open>gru\<close> and \<^verbatim>\<open>head\<close>; the dropout layer between core and head is not one of them.
\<close>

theorem GRU_init_wiring:
  assumes "ext_InputLayer E (cfg_obj w) = Inr emb"
    and "ext_nn_GRU E (output_size_of E emb) (hidden_size (cfg_obj w)) = Inr g"
    and "ext_nn_Dropout E (output_dropout (cfg_obj w)) = Inr dp"
    and "ext_get_head E (cfg_obj w) (hidden_size (cfg_obj w))
           (length (target_variables (cfg_obj w))) = Inr hm"
  shows "GRU_init E w =
           (Inr \<lparr>output_size = length (target_variables (cfg_obj w)),
                 embedding_net = emb, gru = g, dropout = dp, head = hm\<rparr>,
            w\<lparr>trace := trace w @
               [New_BaseModel (cfg_obj w),
                New_InputLayer (cfg_obj w),
                New_nn_GRU (output_size_of E emb) (hidden_size (cfg_obj w)),
                New_nn_Dropout (output_dropout (cfg_obj w)),
                New_head (cfg_obj w) (hidden_size (cfg_obj w))
                  (length (target_variables (cfg_obj w)))]\<rparr>) \<and>
         module_parts = [''embedding_net'', ''gru'', ''head'']"
  using assms
  by (simp add: GRU_init_def pbind_simps BaseModel_init_def ret_def module_parts_def
      GRU_obj.defs BaseModel.defs)

text \<open>The statement above at the sample inputs.\<close>

theorem GRU_init_wiring_witness:
  "ext_InputLayer sample_env (cfg_obj (start sample_config)) = Inr (Sample_InputLayer 4) \<and>
   ext_nn_GRU sample_env (output_size_of sample_env (Sample_InputLayer 4))
     (hidden_size (cfg_obj (start sample_config))) = Inr (Sample_nn_GRU 4 16) \<and>
   ext_nn_Dropout sample_env (output_dropout (cfg_obj (start sample_config))) =
     Inr (Sample_nn_Dropout 0.4) \<and>
   ext_get_head sample_env (cfg_obj (start sample_config))
     (hidden_size (cfg_obj (start sample_config)))
     (length (target_variables (cfg_obj (start sample_config)))) = Inr (Sample_head 16 1) \<and>
   GRU_init sample_env (start sample_config) =
     (Inr sample_gru_obj,
      \<lparr>cfg_obj = sample_config,
       trace = [New_BaseModel sample_config, New_InputLayer sample_config, New_nn_GRU 4 16,
                New_nn_Dropout 0.4, New_head sample_config 16 1]\<rparr>)"
proof -
  have a: "ext_InputLayer sample_env (cfg_obj (start sample_config)) = Inr (Sample_InputLayer 4)"
    by (simp add: sample_env_def sample_config_def start_def)
  have b: "ext_nn_GRU sample_env (output_size_of sample_env (Sample_InputLayer 4))
     (hidden_size (cfg_obj (start sample_config))) = Inr (Sample_nn_GRU 4 16)"
    by (simp add: sample_env_def sample_config_def start_def)
  have c: "ext_nn_Dropout sample_env (output_dropout (cfg_obj (start sample_config))) =
     Inr (Sample_nn_Dropout 0.4)"
    by (simp add: sample_env_def sample_config_def start_def)
  have d: "ext_get_head sample_env (cfg_obj (start sample_config))
     (hidden_size (cfg_obj (start sample_config)))
     (length (target_variables (cfg_obj (start sample_config)))) = Inr (Sample_head 16 1)"
    by (simp add: sample_env_def sample_config_def start_def)
  have "GRU_init sample_env (start sample_config) =
     (Inr sample_gru_obj,
      \<lparr>cfg_obj = sample_config,
       trace = [New_BaseModel sample_config, New_InputLayer sample_config, New_nn_GRU 4 16,
                New_nn_Dropout 0.4, New_head sample_config 16 1]\<rparr>)"
    using GRU_init_wiring [OF a b c d]
    by (simp add: sample_env_def sample_config_def start_def sample_gru_obj_def)
  with a b c d show ?thesis by blast
qed

text \<open>
  Claim C8. Whenever \<^verbatim>\<open>get_model\<close> stops at one of its two validation errors (the
  frequency check fires, or the identifier is not a supported one), it raises with the world
  unchanged: the run has called no constructor.
\<close>

theorem validation_errors_precede_construction:
  assumes "(model (cfg_obj w) \<in> set (SINGLE_FREQ_MODELS E) \<and>
            1 < length (use_frequencies (cfg_obj w))) \<or>
           model (cfg_obj w) \<notin> set supported_models"
  shows "(\<exists>msg. get_model E w = (Inl (ValueError msg), w) \<or>
                get_model E w = (Inl (NotImplementedError msg), w)) \<and>
         filter is_constructor_call (new_events w (snd (get_model E w))) = []"
proof (cases "model (cfg_obj w) \<in> set (SINGLE_FREQ_MODELS E) \<and>
            1 < length (use_frequencies (cfg_obj w))")
  case True
  then have "get_model E w =
     (Inl (ValueError (''Model '' @ model (cfg_obj w) @
                       '' does not support multiple frequencies.'')), w)"
    by (simp add: get_model_rejected)
  then show ?thesis by (auto simp add: new_events_def)
next
  case False
  with assms have "model (cfg_obj w) \<notin> set supported_models" by blast
  with False have "get_model E w =
     (Inl (NotImplementedError
             (model (cfg_obj w) @ '' not implemented or not linked in `get_model()`'')), w)"
    by (rule get_model_not_linked)
  then show ?thesis by (auto simp add: new_events_def)
qed

text \<open>The statement above at the sample inputs.\<close>

theorem validation_errors_precede_construction_witness:
  "model (cfg_obj (start (sample_config\<lparr>model := ''ealstm''\<rparr>)))
     \<in> set (SINGLE_FREQ_MODELS sample_env) \<and>
   1 < length (use_frequencies (cfg_obj (start (sample_config\<lparr>model := ''ealstm''\<rparr>)))) \<and>
   filter is_constructor_call
     (new_events (start (sample_config\<lparr>model := ''ealstm''\<rparr>))
        (snd (get_model sample_env (start (sample_config\<lparr>model := ''ealstm''\<rparr>))))) = [] \<and>
   model (cfg_obj (start (sample_config\<lparr>model := ''transformer''\<rparr>))) \<notin> set supported_models \<and>
   filter is_constructor_call
     (new_events (start (sample_config\<lparr>model := ''transformer''\<rparr>))
        (snd (get_model sample_env (start (sample_config\<lparr>model := ''transformer''\<rparr>))))) = []"
proof -
  have a: "model (cfg_obj (start (sample_config\<lparr>model := ''ealstm''\<rparr>)))
       \<in> set (SINGLE_FREQ_MODELS sample_env) \<and>
     1 < length (use_frequencies (cfg_obj (start (sample_config\<lparr>model := ''ealstm''\<rparr>))))"
    by (simp add: sample_defs)
  have b: "model (cfg_obj (start (sample_config\<lparr>model := ''transformer''\<rparr>)))
             \<notin> set supported_models"
    by (simp add: sample_defs supported_models_def class_table_def)
  from validation_errors_precede_construction [OF disjI1, OF a]
    validation_errors_precede_construction [OF disjI2, OF b, of sample_env] a b
  show ?thesis by blast
qed

text \<open>
  Claim C9. After \<^verbatim>\<open>get_model\<close>, and after \<^verbatim>\<open>GRU.__init__\<close>, the configuration object is
  what it was before the call, whether the call returned or raised.
\<close>

theorem get_model_keeps_configuration:
  "cfg_obj (snd (get_model E w)) = cfg_obj w \<and> cfg_obj (snd (GRU_init E w)) = cfg_obj w"
  using keeps_cfg_get_model [of E] keeps_cfg_GRU_init [of E] by (simp add: keeps_cfg_def)

text \<open>The statement above at the sample inputs.\<close>

theorem get_model_keeps_configuration_witness:
  "cfg_obj (snd (get_model sample_env (start (sample_config\<lparr>model := ''gru''\<rparr>)))) =
     sample_config\<lparr>model := ''gru''\<rparr> \<and>
   cfg_obj (snd (GRU_init sample_env (start sample_config))) = sample_config"
  using get_model_keeps_configuration [of sample_env "start (sample_config\<lparr>model := ''gru''\<rparr>)"]
    get_model_keeps_configuration [of sample_env "start sample_config"]
  by (simp add: start_def)




end
